theory Spec2Isabelle
  imports Main "HOL-Library.Sublist"
begin

section \<open>The LLM bot of environments/openspiel/llm\_bot.py\<close>

text \<open>
  The file holds one class, \<open>LLMBot\<close>: an OpenSpiel bot whose \<open>step\<close> builds a
  prompt, calls an injected LLM function with up to three attempts, parses an action id
  out of the answer and falls back to a random legal action. The embedding below follows
  the class method by method. What lies outside the file is a parameter or a record of
  what the code reads from it:
  \<^item> the game and the game state (\<open>pyspiel\<close>) are records of the values the bot queries;
  \<^item> the injected \<open>llm_chat_fn\<close> is a function on an explicit world state, so that
    successive calls may answer differently; the thread pool, the event loop and the
    timeout only decide which of three outcomes one attempt has;
  \<^item> numpy's \<open>RandomState\<close> is the sequence of raw draws it is going to produce;
  \<^item> the interpreter is a record of what the response parser takes from it: the Unicode
    tables behind \<open>str.strip\<close>, \<open>\w\<close> and \<open>\d\<close>, and the limit that \<open>int\<close> puts on
    the length of a decimal literal.
  The diagnostics printed by \<open>step\<close> and the delay between attempts change no value
  the bot keeps or returns and are left out.
\<close>

subsection \<open>Text\<close>

text \<open>
  The bot handles text of two origins. The prompts, which it writes itself around the
  texts of the game engine (\<open>str(state)\<close>, \<open>action_to_string\<close>), are \<open>string\<close>s: the
  engine's texts are ASCII, and the one character of the source outside ASCII, the arrow
  U+2192 between the bids of the bid-history line, is written as its three UTF-8 bytes.
  On these texts \<open>str.split\<close> and \<open>str.isdigit\<close> see the ASCII whitespace and the
  ASCII digits. The response of the LLM is any Unicode text; it is modelled in the next
  subsection.
\<close>

definition ascii_space :: "char \<Rightarrow> bool" where
  "ascii_space c = (let n = (of_char c :: nat) in (9 \<le> n \<and> n \<le> 13) \<or> (28 \<le> n \<and> n \<le> 32))"

definition ascii_digit :: "char \<Rightarrow> bool" where
  "ascii_digit c = (let n = (of_char c :: nat) in 48 \<le> n \<and> n \<le> 57)"

text \<open>\<open>s.split()\<close>: the maximal runs of non-whitespace characters, in order.\<close>

fun split_acc :: "string \<Rightarrow> string \<Rightarrow> string list" where
  "split_acc cur [] = (if cur = [] then [] else [cur])"
| "split_acc cur (c # cs) =
     (if ascii_space c then (if cur = [] then split_acc [] cs else cur # split_acc [] cs)
      else split_acc (cur @ [c]) cs)"

definition py_split :: "string \<Rightarrow> string list" where
  "py_split s = split_acc [] s"

text \<open>\<open>s.isdigit()\<close>: at least one character, and all of them digits.\<close>

definition py_isdigit :: "string \<Rightarrow> bool" where
  "py_isdigit s = (s \<noteq> [] \<and> list_all ascii_digit s)"

text \<open>\<open>sep.join(xs)\<close>.\<close>

fun py_join :: "string \<Rightarrow> string list \<Rightarrow> string" where
  "py_join sep [] = []"
| "py_join sep [x] = x"
| "py_join sep (x # y # ys) = x @ sep @ py_join sep (y # ys)"

text \<open>
  \<open>int(d)\<close> on one ASCII digit, as the Liar's Dice prompt applies it to the characters of
  the dice, and \<open>str(n)\<close> on an integer. Python's integers are unbounded.
\<close>

definition digit_val :: "char \<Rightarrow> int" where
  "digit_val c = int (of_char c) - 48"

fun show_nat :: "nat \<Rightarrow> string" where
  "show_nat n =
     (if n < 10 then [''0123456789'' ! n]
      else show_nat (n div 10) @ [''0123456789'' ! (n mod 10)])"

declare show_nat.simps [simp del]

definition show_int :: "int \<Rightarrow> string" where
  "show_int i = (if i < 0 then CHR ''-'' # show_nat (nat (- i)) else show_nat (nat i))"

subsection \<open>The response and the interpreter\<close>

text \<open>
  The response of the LLM is a Python \<open>str\<close> of any content: a list of Unicode code
  points. \<open>ascii s\<close> is the response with the characters of the literal \<open>s\<close>.
\<close>

type_synonym pystr = "nat list"

definition ascii :: "string \<Rightarrow> pystr" where
  "ascii s = map of_char s"

text \<open>
  What \<open>_parse_action\<close> takes from the interpreter. The Unicode database is no part of
  the repository, so its tables are parameters:
  \<^item> \<open>uni_space c\<close>: \<open>c\<close> is whitespace, as \<open>str.strip\<close> and \<open>str.isspace\<close> see it;
  \<^item> \<open>uni_decimal c\<close>: the value of \<open>c\<close> when it is a decimal digit (category Nd, in any
    script), which is what \<open>\d\<close> matches and what \<open>int\<close> reads;
  \<^item> \<open>uni_alnum c\<close>: \<open>str.isalnum\<close> of \<open>c\<close>.
  \<open>int_max_str_digits\<close> is \<open>sys.get_int_max_str_digits()\<close>: from CPython 3.11 on,
  \<open>int\<close> raises \<open>ValueError\<close> on a decimal literal of more digits than this limit. The
  default is 4300; 0 switches the limit off, and an interpreter without the limit is one
  with the value 0.
\<close>

record py_env =
  uni_space :: "nat \<Rightarrow> bool"
  uni_decimal :: "nat \<Rightarrow> nat option"
  uni_alnum :: "nat \<Rightarrow> bool"
  int_max_str_digits :: nat

text \<open>
  The classes \<open>\d\<close> and \<open>\w\<close> of the \<open>re\<close> module on a \<open>str\<close> pattern: a decimal
  digit; an alphanumeric character or the underscore (code point 95).
\<close>

definition re_digit :: "py_env \<Rightarrow> nat \<Rightarrow> bool" where
  "re_digit env c = (uni_decimal env c \<noteq> None)"

definition re_word :: "py_env \<Rightarrow> nat \<Rightarrow> bool" where
  "re_word env c = (uni_alnum env c \<or> c = 95)"

text \<open>\<open>s.strip()\<close>: whitespace removed at both ends.\<close>

definition py_strip :: "py_env \<Rightarrow> pystr \<Rightarrow> pystr" where
  "py_strip env s = rev (dropWhile (uni_space env) (rev (dropWhile (uni_space env) s)))"

text \<open>
  \<open>int(s)\<close> on a text without sign, blanks or underscores, which is what the parser
  passes: \<open>ValueError\<close> when the text is empty or one of its characters is no decimal
  digit, \<open>ValueError\<close> when it has more digits than the limit allows, and otherwise the
  number that the digits denote in base ten.
\<close>

datatype py_error = ValueError | AttributeError

definition digit_value :: "py_env \<Rightarrow> nat \<Rightarrow> int" where
  "digit_value env c = (case uni_decimal env c of Some d \<Rightarrow> int d | None \<Rightarrow> 0)"

definition py_int :: "py_env \<Rightarrow> pystr \<Rightarrow> py_error + int" where
  "py_int env s =
     (if s \<noteq> [] \<and> list_all (re_digit env) s
      then (if 0 < int_max_str_digits env \<and> int_max_str_digits env < length s
            then Inl ValueError
            else Inr (foldl (\<lambda>acc c. 10 * acc + digit_value env c) 0 s))
      else Inl ValueError)"

subsection \<open>The search \<open>re.search(r"\b(\d+)\b", text)\<close>\<close>

text \<open>
  \<open>\b\<close> holds at a position when exactly one of the characters left and right of it is
  a word character, the ends of the text counting as non-word.
\<close>

definition word_char :: "py_env \<Rightarrow> nat option \<Rightarrow> bool" where
  "word_char env p = (case p of None \<Rightarrow> False | Some c \<Rightarrow> re_word env c)"

definition word_boundary :: "py_env \<Rightarrow> nat option \<Rightarrow> nat option \<Rightarrow> bool" where
  "word_boundary env prev nxt = (word_char env prev \<noteq> word_char env nxt)"

definition char_at :: "pystr \<Rightarrow> nat \<Rightarrow> nat option" where
  "char_at s i = (if i < length s then Some (s ! i) else None)"

text \<open>
  \<open>\d+\<close> is greedy: it first takes the whole run of digits and gives one digit back
  at a time until the closing \<open>\b\<close> holds. \<open>try_lengths env rest k\<close> tries the lengths
  \<open>k\<close>, \<open>k - 1\<close>, ..., 1 of the group at the head of \<open>rest\<close>.
\<close>

fun try_lengths :: "py_env \<Rightarrow> pystr \<Rightarrow> nat \<Rightarrow> pystr option" where
  "try_lengths env rest 0 = None"
| "try_lengths env rest (Suc k) =
     (if word_boundary env (char_at rest k) (char_at rest (Suc k)) then Some (take (Suc k) rest)
      else try_lengths env rest k)"

text \<open>The match attempted at one position: \<open>prev\<close> is the character left of it.\<close>

definition match_here :: "py_env \<Rightarrow> nat option \<Rightarrow> pystr \<Rightarrow> pystr option" where
  "match_here env prev rest =
     (if word_boundary env prev (char_at rest 0)
      then try_lengths env rest (length (takeWhile (re_digit env) rest))
      else None)"

text \<open>The search tries every position from the left and keeps the first match.\<close>

fun re_search_from :: "py_env \<Rightarrow> nat option \<Rightarrow> pystr \<Rightarrow> pystr option" where
  "re_search_from env prev [] = match_here env prev []"
| "re_search_from env prev (c # cs) =
     (case match_here env prev (c # cs) of
        Some grp \<Rightarrow> Some grp
      | None \<Rightarrow> re_search_from env (Some c) cs)"

definition re_search :: "py_env \<Rightarrow> pystr \<Rightarrow> pystr option" where
  "re_search env s = re_search_from env None s"

subsection \<open>The random source\<close>

text \<open>
  \<open>np.random.RandomState(rng_seed)\<close> is deterministic: it is the sequence of raw draws
  it will make. \<open>choice(xs)\<close> raises \<open>ValueError\<close> on an empty sequence and leaves the
  generator as it was; otherwise it uses one draw to pick an index below
  \<open>len(xs)\<close> and returns the element there.
\<close>

type_synonym rng = "nat \<Rightarrow> nat"

definition rng_choice :: "rng \<Rightarrow> 'a list \<Rightarrow> (py_error + 'a) \<times> rng" where
  "rng_choice g xs =
     (if xs = [] then (Inl ValueError, g)
      else (Inr (xs ! (g 0 mod length xs)), (\<lambda>i. g (Suc i))))"

subsection \<open>The collaborators: game, state, LLM function\<close>

text \<open>
  Of \<open>pyspiel.Game\<close> the bot reads \<open>get_type().short_name\<close> and
  \<open>num_players()\<close>; of \<open>pyspiel.State\<close> it reads \<open>str(state)\<close>,
  \<open>legal_actions(player)\<close> and \<open>action_to_string(player, action)\<close>.
\<close>

record game =
  short_name :: string
  num_players :: int

record game_state =
  state_text :: string
  legal_actions :: "int \<Rightarrow> int list"
  action_to_string :: "int \<Rightarrow> int \<Rightarrow> string"

text \<open>
  The usage record is a dict from counter names to integers; \<open>usage_get u k\<close> is
  \<open>u.get(k, 0)\<close>.
\<close>

type_synonym usage = "(string \<times> int) list"

definition usage_get :: "usage \<Rightarrow> string \<Rightarrow> int" where
  "usage_get u k = (case map_of u k of None \<Rightarrow> 0 | Some v \<Rightarrow> v)"

text \<open>
  One attempt of \<open>step\<close> submits the LLM function to a worker and waits for
  \<open>future.result(timeout=call_timeout)\<close>. It ends in one of three ways: the pair
  \<open>(response, usage)\<close>; \<open>concurrent.futures.TimeoutError\<close>; or another exception
  \<open>e\<close>, of which the handler reads \<open>type(e).__name__\<close>, \<open>str(e)\<close> and the
  formatted traceback.
\<close>

datatype llm_outcome =
    Success pystr usage
  | Timeout
  | Failure string string string

type_synonym 'w llm_fn = "string \<Rightarrow> 'w \<Rightarrow> llm_outcome \<times> 'w"

subsection \<open>The bot's state\<close>

record error_info =
  err_prompt :: string
  err_error :: string
  err_attempts :: nat

record usage_totals =
  prompt_tokens :: int
  completion_tokens :: int
  total_tokens :: int

text \<open>
  A message of the conversation is a dict with a role and a content; the content is a
  prompt that the bot built or a response that it received.
\<close>

datatype body = Built string | Received pystr

record message =
  role :: string
  content :: body

record 'w bot =
  bot_game :: game
  player_id :: int
  llm_chat_fn :: "'w llm_fn"
  rng :: rng
  action_history :: "(int \<times> int) list"
  conversation :: "message list"
  last_error :: "error_info option"
  total_usage :: usage_totals

definition zero_usage :: usage_totals where
  "zero_usage = \<lparr>prompt_tokens = 0, completion_tokens = 0, total_tokens = 0\<rparr>"

text \<open>\<open>__init__\<close>; \<open>g\<close> is the generator that \<open>RandomState(rng_seed)\<close> builds.\<close>

definition init_bot :: "game \<Rightarrow> int \<Rightarrow> 'w llm_fn \<Rightarrow> rng \<Rightarrow> 'w bot" where
  "init_bot gm pid f g =
     \<lparr>bot_game = gm, player_id = pid, llm_chat_fn = f, rng = g, action_history = [],
      conversation = [], last_error = None, total_usage = zero_usage\<rparr>"

definition restart_at :: "'w bot \<Rightarrow> game_state \<Rightarrow> 'w bot" where
  "restart_at b st =
     b\<lparr>action_history := [], conversation := [], last_error := None,
       total_usage := zero_usage\<rparr>"

definition inform_action :: "'w bot \<Rightarrow> game_state \<Rightarrow> int \<Rightarrow> int \<Rightarrow> 'w bot" where
  "inform_action b st pid action = b\<lparr>action_history := action_history b @ [(pid, action)]\<rparr>"

subsection \<open>Prompts\<close>

definition actions_desc :: "'w bot \<Rightarrow> game_state \<Rightarrow> string list" where
  "actions_desc b st =
     map (\<lambda>action. show_int action @ '': '' @ action_to_string st (player_id b) action)
       (legal_actions st (player_id b))"

definition generate_default_prompt :: "'w bot \<Rightarrow> game_state \<Rightarrow> string \<Rightarrow> string" where
  "generate_default_prompt b st game_name =
     ''You are playing '' @ game_name @ ''.\<newline>'' @
     ''\<newline>'' @
     ''Current game state:\<newline>'' @
     state_text st @ ''\<newline>'' @
     ''\<newline>'' @
     ''You are Player '' @ show_int (player_id b) @ ''.\<newline>'' @
     ''\<newline>'' @
     ''Legal actions:\<newline>'' @
     py_join ''\<newline>'' (actions_desc b st) @ ''\<newline>'' @
     ''\<newline>'' @
     ''Choose one action by responding with ONLY the action number.\<newline>'' @
     ''Your choice: ''"

text \<open>The separator of the bid-history line: space, U+2192 in UTF-8, space.\<close>

definition arrow_sep :: string where
  "arrow_sep = [CHR '' '', CHR 0xE2, CHR 0x86, CHR 0x92, CHR '' '']"

text \<open>
  The parts of the state text that the Liar's Dice prompt uses: the dice are the digits
  of the first whitespace-separated part when that part is all digits, the bid history
  is the remaining parts.
\<close>

definition my_dice_of :: "string list \<Rightarrow> int list" where
  "my_dice_of parts =
     (let my_dice_str = (if parts \<noteq> [] then hd parts else [])
      in if py_isdigit my_dice_str then map digit_val my_dice_str else [])"

definition bid_history_of :: "string list \<Rightarrow> string list" where
  "bid_history_of parts = (if length parts > 1 then tl parts else [])"

text \<open>One pass of the loop over \<open>range(1, 7)\<close> of the first-turn prompt.\<close>

definition face_line :: "int list \<Rightarrow> int \<Rightarrow> string" where
  "face_line my_dice face =
     (let count = count_list my_dice face
      in ''  '' @ show_int face @ ''s: '' @ show_nat count @ '' dice'' @
         (if face = 1 \<and> count > 0 then '' (WILD - counts as any face)'' else []) @
         ''\<newline>'')"

definition rules_prompt ::
  "int \<Rightarrow> nat \<Rightarrow> int \<Rightarrow> int list \<Rightarrow> string list \<Rightarrow> string" where
  "rules_prompt n_players dice_per_player total_dice my_dice descs =
     ''You are playing LIAR'S DICE - A bluffing and deduction game.\<newline>'' @
     ''\<newline>'' @
     ''=== GAME RULES ===\<newline>'' @
     ''Players: '' @ show_int n_players @ '' players\<newline>'' @
     ''Dice per player: '' @ show_nat dice_per_player @ '' dice (values 1-6)\<newline>'' @
     ''Total dice in game: '' @ show_int total_dice @ '' dice\<newline>'' @
     ''\<newline>'' @
     ''HOW TO PLAY:\<newline>'' @
     ''1. Each player has their own dice (hidden from others)\<newline>'' @
     ''2. Players take turns making BIDS about the total dice across ALL players\<newline>'' @
     ''3. A bid is \"quantity-face\" (e.g., \"3-5\" means \"at least three 5s exist among all '' @
       show_int total_dice @ '' dice\")\<newline>'' @
     ''4. SPECIAL RULE: 1s are WILD - they count as any face value\<newline>'' @
     ''5. Each bid must be HIGHER than the previous:\<newline>'' @
     ''   - Higher quantity with any face, OR\<newline>'' @
     ''   - Same quantity with higher face value\<newline>'' @
     ''6. Instead of bidding higher, you can call \"Liar\" to challenge the previous bid\<newline>'' @
     ''7. If you call \"Liar\": count all dice; if bid was FALSE, bidder loses; if TRUE, caller loses\<newline>'' @
     ''\<newline>'' @
     ''STRATEGY TIPS:\<newline>'' @
     ''- You can see your own '' @ show_nat dice_per_player @ '' dice\<newline>'' @
     ''- Estimate what others might have (each die has 1/6 chance of any face)\<newline>'' @
     ''- Remember: 1s are wild and count toward any face\<newline>'' @
     ''- Conservative bids are safer; aggressive bids apply pressure\<newline>'' @
     ''\<newline>'' @
     ''=== YOUR CURRENT SITUATION ===\<newline>'' @
     ''Your dice: '' @ py_join '', '' (map show_int my_dice) @ ''\<newline>'' @
     ''Your dice count by face:\<newline>'' @
     concat (map (face_line my_dice) [1, 2, 3, 4, 5, 6]) @
     ''\<newline>'' @
     ''Bid history: None (you're making the opening bid)\<newline>'' @
     ''\<newline>'' @
     ''YOUR TASK:\<newline>'' @
     ''Make an opening bid. Choose conservatively based on your dice.\<newline>'' @
     ''Since you have '' @ show_nat (count_list my_dice 1) @
       '' wild 1s, you can bid on faces you don't have.\<newline>'' @
     ''\<newline>'' @
     ''Legal actions:\<newline>'' @
     py_join ''\<newline>'' descs @ ''\<newline>'' @
     ''\<newline>'' @
     ''Respond with ONLY the action number.\<newline>'' @
     ''Your choice: ''"

definition concise_prompt ::
  "int \<Rightarrow> nat \<Rightarrow> int \<Rightarrow> int list \<Rightarrow> string list \<Rightarrow> string list \<Rightarrow> string" where
  "concise_prompt pid dice_per_player total_dice my_dice bid_history descs =
     (let current_bid = (if bid_history \<noteq> [] then last bid_history else ''None'')
      in
     ''LIAR'S DICE - Player '' @ show_int pid @ [CHR 0x27] @ ''s Turn\<newline>'' @
     ''\<newline>'' @
     ''Your dice ('' @ show_nat dice_per_player @ '' dice): '' @
       py_join '', '' (map show_int my_dice) @ ''\<newline>'' @
     ''Total dice in game: '' @ show_int total_dice @ ''\<newline>'' @
     ''Current bid: '' @ current_bid @ ''\<newline>'' @
     ''\<newline>'' @
     ''Bid history: '' @
       (if bid_history \<noteq> [] then py_join arrow_sep bid_history else ''None'') @ ''\<newline>'' @
     ''\<newline>'' @
     ''Remember: 1s are WILD (count as any face)\<newline>'' @
     ''\<newline>'' @
     ''Legal actions:\<newline>'' @
     py_join ''\<newline>'' descs @ ''\<newline>'' @
     ''\<newline>'' @
     ''Respond with ONLY the action number.\<newline>'' @
     ''Your choice: '')"

definition generate_liars_dice_prompt :: "'w bot \<Rightarrow> game_state \<Rightarrow> bool \<Rightarrow> string" where
  "generate_liars_dice_prompt b st is_first_turn =
     (let parts = py_split (state_text st);
          my_dice = my_dice_of parts;
          bid_history = bid_history_of parts;
          descs = actions_desc b st;
          n_players = num_players (bot_game b);
          dice_per_player = length my_dice;
          total_dice = n_players * int dice_per_player
      in if is_first_turn
         then rules_prompt n_players dice_per_player total_dice my_dice descs
         else concise_prompt (player_id b) dice_per_player total_dice my_dice bid_history descs)"

definition generate_prompt :: "'w bot \<Rightarrow> game_state \<Rightarrow> string" where
  "generate_prompt b st =
     (let game_name = short_name (bot_game b);
          is_first_turn = (length (conversation b) = 0)
      in if game_name = ''liars_dice''
         then generate_liars_dice_prompt b st is_first_turn
         else generate_default_prompt b st game_name)"

subsection \<open>Parsing the answer\<close>

text \<open>
  \<open>_parse_action\<close>: the first match of the search in the stripped response is read as
  an integer and returned when it is a legal action; when there is no match or the
  integer is not legal the action is \<open>self._rng.choice(legal_actions)\<close>, here
  \<open>choose_random\<close>. The call of \<open>int\<close> stands in no \<open>try\<close>: the error it raises leaves
  the method. The result is paired with the bot, whose generator the draw advances.
\<close>

definition choose_random :: "'w bot \<Rightarrow> int list \<Rightarrow> (py_error + int) \<times> 'w bot" where
  "choose_random b legal = (case rng_choice (rng b) legal of (r, g') \<Rightarrow> (r, b\<lparr>rng := g'\<rparr>))"

definition parse_action ::
  "py_env \<Rightarrow> 'w bot \<Rightarrow> pystr \<Rightarrow> int list \<Rightarrow> (py_error + int) \<times> 'w bot" where
  "parse_action env b response legal =
     (case re_search env (py_strip env response) of
        Some grp \<Rightarrow>
          (case py_int env grp of
             Inl e \<Rightarrow> (Inl e, b)
           | Inr action \<Rightarrow>
               if action \<in> set legal then (Inr action, b) else choose_random b legal)
      | None \<Rightarrow> choose_random b legal)"

subsection \<open>The decision of one turn\<close>

definition max_retries :: nat where
  "max_retries = 3"

definition call_timeout :: nat where
  "call_timeout = 120"

definition add_usage :: "usage_totals \<Rightarrow> usage \<Rightarrow> usage_totals" where
  "add_usage t u =
     (if u \<noteq> []
      then \<lparr>prompt_tokens = prompt_tokens t + usage_get u ''prompt_tokens'',
            completion_tokens = completion_tokens t + usage_get u ''completion_tokens'',
            total_tokens = total_tokens t + usage_get u ''total_tokens''\<rparr>
      else t)"

text \<open>The text stored as the error of a failed attempt, by handler.\<close>

definition error_msg :: "llm_outcome \<Rightarrow> string" where
  "error_msg out =
     (case out of
        Timeout \<Rightarrow> ''LLM call timeout after '' @ show_nat call_timeout @ ''s''
      | Failure tname msg tb \<Rightarrow> tname @ '': '' @ msg @ ''\<newline>'' @ tb
      | Success _ _ \<Rightarrow> [])"

text \<open>
  The loop \<open>for attempt in range(max_retries)\<close> leaves in one of three ways: by
  \<open>break\<close> with a response, by \<open>return\<close> out of a handler with the result of the
  random choice (an action, or the error the choice raised), or by running out of
  attempts. The world state \<open>w\<close> is what the calls of the LLM function act on.
\<close>

datatype loop_exit = Break pystr | Return "py_error + int" | Exhausted

definition on_failure :: "'w bot \<Rightarrow> game_state \<Rightarrow> string \<Rightarrow> llm_outcome \<Rightarrow> loop_exit \<times> 'w bot" where
  "on_failure b st prompt out =
     (let b1 = b\<lparr>last_error :=
                  Some \<lparr>err_prompt = prompt, err_error = error_msg out,
                        err_attempts = max_retries\<rparr>\<rparr>;
          legal = legal_actions st (player_id b1)
      in case choose_random b1 legal of (r, b2) \<Rightarrow> (Return r, b2))"

text \<open>The two messages that a successful attempt appends to the conversation.\<close>

definition exchange :: "string \<Rightarrow> pystr \<Rightarrow> message list" where
  "exchange p r =
     [\<lparr>role = ''user'', content = Built p\<rparr>, \<lparr>role = ''assistant'', content = Received r\<rparr>]"

fun attempts ::
  "string \<Rightarrow> game_state \<Rightarrow> nat list \<Rightarrow> 'w bot \<Rightarrow> 'w \<Rightarrow> loop_exit \<times> 'w bot \<times> 'w" where
  "attempts prompt st [] b w = (Exhausted, b, w)"
| "attempts prompt st (attempt # rest) b w =
     (case llm_chat_fn b prompt w of
        (Success response u, w') \<Rightarrow>
          (Break response,
           b\<lparr>conversation := conversation b @ exchange prompt response,
             total_usage := add_usage (total_usage b) u\<rparr>,
           w')
      | (out, w') \<Rightarrow>
          (if attempt < max_retries - 1 then attempts prompt st rest b w'
           else (case on_failure b st prompt out of (x, b') \<Rightarrow> (x, b', w'))))"

text \<open>
  \<open>step\<close>, run by the interpreter \<open>env\<close>. The result is the returned action or the
  exception that leaves the method, with the bot and the world as the call leaves them.
  When the loop ends without a response, \<open>response\<close> is still \<open>None\<close> and
  \<open>response.strip()\<close> raises. An error of the parser leaves \<open>step\<close> as well: the call
  of \<open>_parse_action\<close> comes after the loop and its handlers.
\<close>

definition step ::
  "py_env \<Rightarrow> 'w bot \<Rightarrow> game_state \<Rightarrow> 'w \<Rightarrow> (py_error + int) \<times> 'w bot \<times> 'w" where
  "step env b st w =
     (let prompt = generate_prompt b st
      in case attempts prompt st [0..<max_retries] b w of
           (Return r, b', w') \<Rightarrow> (r, b', w')
         | (Exhausted, b', w') \<Rightarrow> (Inl AttributeError, b', w')
         | (Break response, b', w') \<Rightarrow>
             (let legal = legal_actions st (player_id b')
              in case parse_action env b' response legal of
                   (Inl e, b'') \<Rightarrow> (Inl e, b'', w')
                 | (Inr action, b'') \<Rightarrow>
                     (Inr action,
                      b''\<lparr>action_history := action_history b'' @ [(player_id b'', action)]\<rparr>,
                      w')))"

subsection \<open>Vocabulary of the statements\<close>

text \<open>
  The response parser in the words of its specification: a standalone integer token is
  a maximal run of word characters (a word that is no part of a larger identifier or
  number) made of digits only; the parser looks at the first such token of the text.
\<close>

fun word_runs_acc :: "py_env \<Rightarrow> pystr \<Rightarrow> pystr \<Rightarrow> pystr list" where
  "word_runs_acc env cur [] = (if cur = [] then [] else [cur])"
| "word_runs_acc env cur (c # cs) =
     (if re_word env c then word_runs_acc env (cur @ [c]) cs
      else (if cur = [] then word_runs_acc env [] cs else cur # word_runs_acc env [] cs))"

definition first_standalone_int :: "py_env \<Rightarrow> pystr \<Rightarrow> pystr option" where
  "first_standalone_int env s = find (list_all (re_digit env)) (word_runs_acc env [] s)"

text \<open>
  Two facts that hold of the tables of every version of the Unicode database, and on
  which the reading of the search as a scan for standalone tokens rests: a decimal digit
  is alphanumeric, and a whitespace character is no word character.
\<close>

definition tables_consistent :: "py_env \<Rightarrow> bool" where
  "tables_consistent env =
     ((\<forall>c. re_digit env c \<longrightarrow> re_word env c) \<and> (\<forall>c. uni_space env c \<longrightarrow> \<not> re_word env c))"

text \<open>
  What the injected LLM function does over successive calls with one prompt:
  \<open>first_success f p n w\<close> is the response, the usage and the world of the first call
  among \<open>n\<close> that succeeds, \<open>world_after f p n w\<close> is the world after \<open>n\<close> calls and
  \<open>outcome_at f p n w\<close> the outcome of the call made after \<open>n\<close> earlier ones.
\<close>

fun first_success :: "'w llm_fn \<Rightarrow> string \<Rightarrow> nat \<Rightarrow> 'w \<Rightarrow> (pystr \<times> usage \<times> 'w) option" where
  "first_success f p 0 w = None"
| "first_success f p (Suc n) w =
     (case f p w of
        (Success r u, w') \<Rightarrow> Some (r, u, w')
      | (_, w') \<Rightarrow> first_success f p n w')"

fun world_after :: "'w llm_fn \<Rightarrow> string \<Rightarrow> nat \<Rightarrow> 'w \<Rightarrow> 'w" where
  "world_after f p 0 w = w"
| "world_after f p (Suc n) w = world_after f p n (snd (f p w))"

definition outcome_at :: "'w llm_fn \<Rightarrow> string \<Rightarrow> nat \<Rightarrow> 'w \<Rightarrow> llm_outcome" where
  "outcome_at f p n w = fst (f p (world_after f p n w))"

subsection \<open>Concrete inputs\<close>

text \<open>
  A Liar's Dice game of two players, a state in which the bot holds the dice 1, 1, 3 and
  nothing has been bid, and a later state with two bids. The world of the LLM functions
  below is the number of calls made so far.
\<close>

definition liars_dice :: game where
  "liars_dice = \<lparr>short_name = ''liars_dice'', num_players = 2\<rparr>"

definition opening_state :: game_state where
  "opening_state =
     \<lparr>state_text = ''113'',
      legal_actions = (\<lambda>p. [1, 2, 3]),
      action_to_string = (\<lambda>p a. if a = 1 then ''1-1'' else if a = 2 then ''1-2'' else ''1-3'')\<rparr>"

definition later_state :: game_state where
  "later_state =
     \<lparr>state_text = ''113 1-2 2-3'',
      legal_actions = (\<lambda>p. [10, 11, 12]),
      action_to_string = (\<lambda>p a. if a = 10 then ''2-4'' else if a = 11 then ''2-5'' else ''Liar'')\<rparr>"

text \<open>A state that gives the player no legal action.\<close>

definition stuck_state :: game_state where
  "stuck_state =
     \<lparr>state_text = ''113'', legal_actions = (\<lambda>p. []), action_to_string = (\<lambda>p a. [])\<rparr>"

definition always_timeout :: "nat llm_fn" where
  "always_timeout p n = (Timeout, Suc n)"

definition answers :: "pystr \<Rightarrow> usage \<Rightarrow> nat llm_fn" where
  "answers r u p n = (Success r u, Suc n)"

definition usage_a :: usage where
  "usage_a = [(''prompt_tokens'', 10), (''completion_tokens'', 5), (''total_tokens'', 15)]"

definition usage_b :: usage where
  "usage_b = [(''prompt_tokens'', 7), (''completion_tokens'', 3), (''total_tokens'', 10)]"

text \<open>An LLM function whose first call reports \<open>usage_a\<close> and every later call \<open>usage_b\<close>.\<close>

definition two_answers :: "nat llm_fn" where
  "two_answers p n = (Success (ascii ''2'') (if n = 0 then usage_a else usage_b), Suc n)"

definition fresh_bot :: "nat llm_fn \<Rightarrow> nat bot" where
  "fresh_bot f = init_bot liars_dice 0 f (\<lambda>i. i)"

text \<open>
  An interpreter for the concrete inputs: CPython 3.11 in its default configuration
  (limit 4300). Its tables are those of CPython's Unicode database on the code points
  below 256, on the CJK ideographs U+4E00 to U+9FA5 (19968 to 40869, alphanumeric) and
  on the fullwidth digits U+FF10 to U+FF19 (65296 to 65305, decimal digits); the
  concrete responses hold no other code point.
\<close>

definition sample_env :: py_env where
  "sample_env =
     \<lparr>uni_space = (\<lambda>c. (9 \<le> c \<and> c \<le> 13) \<or> (28 \<le> c \<and> c \<le> 32) \<or> c = 133 \<or> c = 160),
      uni_decimal = (\<lambda>c. if 48 \<le> c \<and> c \<le> 57 then Some (c - 48)
                         else if 65296 \<le> c \<and> c \<le> 65305 then Some (c - 65296)
                         else None),
      uni_alnum = (\<lambda>c. (48 \<le> c \<and> c \<le> 57) \<or> (65 \<le> c \<and> c \<le> 90) \<or> (97 \<le> c \<and> c \<le> 122)
                     \<or> c = 170 \<or> c = 178 \<or> c = 179 \<or> c = 181 \<or> c = 185 \<or> c = 186
                     \<or> (188 \<le> c \<and> c \<le> 190) \<or> (192 \<le> c \<and> c \<le> 214)
                     \<or> (216 \<le> c \<and> c \<le> 246) \<or> (248 \<le> c \<and> c \<le> 255)
                     \<or> (19968 \<le> c \<and> c \<le> 40869) \<or> (65296 \<le> c \<and> c \<le> 65305)),
      int_max_str_digits = 4300\<rparr>"

text \<open>A response that is one number of 4301 digits, and a usage record with one field.\<close>

definition overlong_number :: pystr where
  "overlong_number = replicate 4301 (of_char (CHR ''1''))"

definition usage_partial :: usage where
  "usage_partial = [(''prompt_tokens'', 7)]"

section \<open>The search and the parser\<close>

text \<open>
  The search is a scan for the first standalone integer token: for consistent tables
  the backtracking search and the scan over the maximal runs of word characters find
  the same text.
\<close>

lemma try_lengths_run:
  assumes dw: "\<And>c. re_digit env c \<Longrightarrow> re_word env c"
  shows "k \<le> length (takeWhile (re_digit env) rest) \<Longrightarrow>
   try_lengths env rest k =
     (if k = length (takeWhile (re_digit env) rest) \<and> 0 < k \<and> \<not> word_char env (char_at rest k)
      then Some (takeWhile (re_digit env) rest) else None)"
proof (induction k)
  case 0
  then show ?case by simp
next
  case (Suc k)
  let ?n = "length (takeWhile (re_digit env) rest)"
  from Suc.prems have kn: "k < ?n" by simp
  have klen: "k < length rest"
    using kn length_takeWhile_le[of "re_digit env" rest] by simp
  have "re_digit env (rest ! k)"
    using kn by (metis nth_mem set_takeWhileD takeWhile_nth)
  then have wk: "word_char env (char_at rest k)"
    using klen by (simp add: word_char_def char_at_def dw)
  have tl: "try_lengths env rest k = None"
    using Suc.IH kn by simp
  have stp: "try_lengths env rest (Suc k) =
      (if \<not> word_char env (char_at rest (Suc k)) then Some (take (Suc k) rest) else None)"
    using wk tl by (simp add: word_boundary_def)
  show ?case
  proof (cases "Suc k = ?n")
    case True
    have "take (Suc k) rest = takeWhile (re_digit env) rest"
      using True takeWhile_eq_take[of "re_digit env" rest] by simp
    then show ?thesis using True[symmetric] stp by simp
  next
    case False
    then have skn: "Suc k < ?n" using Suc.prems by simp
    have sklen: "Suc k < length rest"
      using skn length_takeWhile_le[of "re_digit env" rest] by simp
    have "re_digit env (rest ! Suc k)"
      using skn by (metis nth_mem set_takeWhileD takeWhile_nth)
    then have "word_char env (char_at rest (Suc k))"
      using sklen by (simp add: word_char_def char_at_def dw)
    then show ?thesis using stp False by simp
  qed
qed

lemma word_runs_acc_split:
  "word_runs_acc env cur s =
     (if cur @ takeWhile (re_word env) s = [] then [] else [cur @ takeWhile (re_word env) s])
       @ word_runs_acc env [] (dropWhile (re_word env) s)"
proof (induction s arbitrary: cur)
  case Nil
  show ?case by simp
next
  case (Cons c cs)
  show ?case
  proof (cases "re_word env c")
    case True
    then show ?thesis using Cons.IH[of "cur @ [c]"] by simp
  next
    case False
    then show ?thesis by simp
  qed
qed

lemma all_digits_run:
  assumes dw: "\<And>c. re_digit env c \<Longrightarrow> re_word env c"
  shows "list_all (re_digit env) (takeWhile (re_word env) s)
           \<longleftrightarrow> takeWhile (re_word env) s = takeWhile (re_digit env) s"
  by (induction s) (auto simp: dw)

lemma run_end_nonword:
  assumes dw: "\<And>c. re_digit env c \<Longrightarrow> re_word env c"
  shows "\<not> word_char env (char_at s (length (takeWhile (re_digit env) s)))
     \<longleftrightarrow> takeWhile (re_word env) s = takeWhile (re_digit env) s"
proof (induction s)
  case Nil
  show ?case by (simp add: char_at_def word_char_def)
next
  case (Cons c cs)
  show ?case
  proof (cases "re_digit env c")
    case True
    have "char_at (c # cs) (Suc n) = char_at cs n" for n
      by (simp add: char_at_def)
    then show ?thesis using True Cons.IH by (simp add: dw)
  next
    case False
    then show ?thesis by (simp add: char_at_def word_char_def)
  qed
qed

lemma match_here_char:
  assumes dw: "\<And>c. re_digit env c \<Longrightarrow> re_word env c"
  shows "match_here env prev s =
     (if \<not> word_char env prev \<and> s \<noteq> [] \<and> re_digit env (hd s)
         \<and> takeWhile (re_word env) s = takeWhile (re_digit env) s
      then Some (takeWhile (re_digit env) s) else None)"
proof (cases "s \<noteq> [] \<and> re_digit env (hd s)")
  case True
  then have w: "word_char env (char_at s 0)"
    by (cases s) (simp_all add: char_at_def word_char_def dw)
  have pos: "0 < length (takeWhile (re_digit env) s)"
    using True by (cases s) simp_all
  have "try_lengths env s (length (takeWhile (re_digit env) s)) =
      (if \<not> word_char env (char_at s (length (takeWhile (re_digit env) s)))
       then Some (takeWhile (re_digit env) s) else None)"
    using try_lengths_run[OF dw, of "length (takeWhile (re_digit env) s)" s] pos by simp
  then have "try_lengths env s (length (takeWhile (re_digit env) s)) =
      (if takeWhile (re_word env) s = takeWhile (re_digit env) s
       then Some (takeWhile (re_digit env) s) else None)"
    using run_end_nonword[OF dw, of s] by simp
  then show ?thesis using w True
    by (simp add: match_here_def word_boundary_def)
next
  case False
  then show ?thesis by (cases s) (auto simp: match_here_def)
qed

lemma re_search_from_runs:
  assumes dw: "\<And>c. re_digit env c \<Longrightarrow> re_word env c"
  shows "(\<not> word_char env prev \<longrightarrow>
      re_search_from env prev s = find (list_all (re_digit env)) (word_runs_acc env [] s)) \<and>
   (word_char env prev \<longrightarrow>
      re_search_from env prev s
        = find (list_all (re_digit env)) (word_runs_acc env [] (dropWhile (re_word env) s)))"
proof (induction s arbitrary: prev)
  case Nil
  show ?case by (simp add: match_here_char[OF dw])
next
  case (Cons c cs)
  have runs: "word_runs_acc env [] (c # cs) =
      (if takeWhile (re_word env) (c # cs) = [] then [] else [takeWhile (re_word env) (c # cs)])
        @ word_runs_acc env [] (dropWhile (re_word env) (c # cs))"
    using word_runs_acc_split[of env "[]" "c # cs"] by simp
  show ?case
  proof (cases "re_word env c")
    case False
    then have nd: "\<not> re_digit env c" using dw by blast
    have "match_here env prev (c # cs) = None" using nd by (simp add: match_here_char[OF dw])
    moreover have "\<not> word_char env (Some c)" using False by (simp add: word_char_def)
    ultimately show ?thesis using Cons.IH[of "Some c"] False by simp
  next
    case True
    define w where "w = takeWhile (re_word env) (c # cs)"
    define D where "D = dropWhile (re_word env) cs"
    have wc: "word_char env (Some c)" using True by (simp add: word_char_def)
    have ih: "re_search_from env (Some c) cs
        = find (list_all (re_digit env)) (word_runs_acc env [] D)"
      using Cons.IH[of "Some c"] wc by (simp add: D_def)
    have hdw: "w \<noteq> []" "hd w = c" using True by (simp_all add: w_def)
    have drw: "dropWhile (re_word env) (c # cs) = D" using True by (simp add: D_def)
    have runs': "word_runs_acc env [] (c # cs) = w # word_runs_acc env [] D"
      using runs hdw drw by (simp add: w_def)
    have inside: "re_search_from env prev (c # cs)
        = find (list_all (re_digit env)) (word_runs_acc env [] D)"
      if "word_char env prev"
    proof -
      have "match_here env prev (c # cs) = None" using that by (simp add: match_here_char[OF dw])
      then show ?thesis using ih by simp
    qed
    have outside: "re_search_from env prev (c # cs)
        = find (list_all (re_digit env)) (w # word_runs_acc env [] D)"
      if np: "\<not> word_char env prev"
    proof (cases "list_all (re_digit env) w")
      case True
      then have eq: "takeWhile (re_word env) (c # cs) = takeWhile (re_digit env) (c # cs)"
        using all_digits_run[OF dw, of "c # cs"] by (simp add: w_def)
      have "re_digit env c" using True hdw by (cases w) simp_all
      then have "match_here env prev (c # cs) = Some w"
        using np eq by (simp add: match_here_char[OF dw] w_def)
      then show ?thesis using True by simp
    next
      case False
      then have "takeWhile (re_word env) (c # cs) \<noteq> takeWhile (re_digit env) (c # cs)"
        using all_digits_run[OF dw, of "c # cs"] by (simp add: w_def)
      then have "match_here env prev (c # cs) = None"
        by (simp add: match_here_char[OF dw])
      then show ?thesis using False ih by simp
    qed
    show ?thesis using inside outside runs' drw by simp
  qed
qed

lemma re_search_first_standalone:
  assumes dw: "\<And>c. re_digit env c \<Longrightarrow> re_word env c"
  shows "re_search env s = first_standalone_int env s"
  using re_search_from_runs[OF dw, of None s]
  by (simp add: re_search_def first_standalone_int_def word_char_def)

lemma word_runs_nonword: "\<forall>c\<in>set t. \<not> re_word env c \<Longrightarrow> word_runs_acc env [] t = []"
  by (induction t) auto

lemma word_runs_acc_trailing:
  "\<forall>c\<in>set t. \<not> re_word env c \<Longrightarrow> word_runs_acc env cur (s @ t) = word_runs_acc env cur s"
proof (induction s arbitrary: cur)
  case Nil
  then show ?case by (cases t) (simp_all add: word_runs_nonword)
next
  case (Cons c cs)
  then show ?case by simp
qed

lemma word_runs_leading:
  assumes sw: "\<And>c. uni_space env c \<Longrightarrow> \<not> re_word env c"
  shows "word_runs_acc env [] (dropWhile (uni_space env) s) = word_runs_acc env [] s"
  by (induction s) (auto simp: sw)

lemma strip_decomp:
  "dropWhile (uni_space env) s
     = py_strip env s @ rev (takeWhile (uni_space env) (rev (dropWhile (uni_space env) s)))"
proof -
  let ?u = "dropWhile (uni_space env) s"
  have "rev (dropWhile (uni_space env) (rev ?u)) @ rev (takeWhile (uni_space env) (rev ?u))
      = rev (takeWhile (uni_space env) (rev ?u) @ dropWhile (uni_space env) (rev ?u))"
    by (simp only: rev_append)
  also have "\<dots> = rev (rev ?u)"
    by (simp only: takeWhile_dropWhile_id)
  finally show ?thesis by (simp only: py_strip_def rev_rev_ident)
qed

lemma first_standalone_int_strip:
  assumes sw: "\<And>c. uni_space env c \<Longrightarrow> \<not> re_word env c"
  shows "first_standalone_int env (py_strip env s) = first_standalone_int env s"
proof -
  let ?t = "rev (takeWhile (uni_space env) (rev (dropWhile (uni_space env) s)))"
  have "\<forall>c\<in>set ?t. \<not> re_word env c"
    by (auto dest: set_takeWhileD simp: sw)
  then have "word_runs_acc env [] (py_strip env s @ ?t) = word_runs_acc env [] (py_strip env s)"
    by (rule word_runs_acc_trailing)
  then have "word_runs_acc env [] (dropWhile (uni_space env) s)
      = word_runs_acc env [] (py_strip env s)"
    using strip_decomp[of env s] by simp
  then show ?thesis by (simp add: first_standalone_int_def word_runs_leading[OF sw])
qed

lemma word_runs_nonempty: "[] \<notin> set (word_runs_acc env cur s)"
  by (induction s arbitrary: cur) auto

lemma standalone_int_digits:
  assumes "first_standalone_int env s = Some tok"
  shows "tok \<noteq> []" and "list_all (re_digit env) tok"
proof -
  have "tok \<in> set (word_runs_acc env [] s)" "list_all (re_digit env) tok"
    using assms by (auto simp: first_standalone_int_def find_Some_iff)
  then show "tok \<noteq> []" "list_all (re_digit env) tok"
    using word_runs_nonempty[of env "[]" s] by auto
qed

lemma choose_random_nonempty:
  "legal \<noteq> [] \<Longrightarrow>
   choose_random b legal =
     (Inr (legal ! (rng b 0 mod length legal)), b\<lparr>rng := (\<lambda>i. rng b (Suc i))\<rparr>)"
  by (simp add: choose_random_def rng_choice_def)

lemma choose_random_empty: "choose_random b [] = (Inl ValueError, b)"
  by (simp add: choose_random_def rng_choice_def)

lemma py_int_error: "py_int env s = Inl e \<Longrightarrow> e = ValueError"
  by (simp add: py_int_def split: if_splits)

lemma py_int_within_limit:
  assumes "s \<noteq> []" and "list_all (re_digit env) s"
      and "int_max_str_digits env = 0 \<or> length s \<le> int_max_str_digits env"
  shows "py_int env s = Inr (foldl (\<lambda>acc c. 10 * acc + digit_value env c) 0 s)"
  using assms by (auto simp: py_int_def)

text \<open>
  The parser in the words of its specification: it looks at the first standalone
  integer token of the response.
\<close>

lemma parse_action_spec:
  assumes "tables_consistent env"
  shows "parse_action env b response legal =
     (case first_standalone_int env response of
        Some tok \<Rightarrow>
          (case py_int env tok of
             Inl e \<Rightarrow> (Inl e, b)
           | Inr action \<Rightarrow>
               if action \<in> set legal then (Inr action, b) else choose_random b legal)
      | None \<Rightarrow> choose_random b legal)"
proof -
  have dw: "\<And>c. re_digit env c \<Longrightarrow> re_word env c"
    and sw: "\<And>c. uni_space env c \<Longrightarrow> \<not> re_word env c"
    using assms by (auto simp: tables_consistent_def)
  show ?thesis
    by (simp add: parse_action_def re_search_first_standalone[OF dw]
          first_standalone_int_strip[OF sw])
qed

text \<open>
  When the first standalone integer token is within the limit of \<open>int\<close>, or there is
  no such token or no limit, the parser returns a legal action: the value of the token
  when that is legal, and otherwise the element of the non-empty list that the bot's
  generator draws.
\<close>

lemma parse_action_within_limit:
  assumes "tables_consistent env" and "legal \<noteq> []"
      and "\<And>tok. first_standalone_int env response = Some tok
             \<Longrightarrow> int_max_str_digits env = 0 \<or> length tok \<le> int_max_str_digits env"
  shows "\<exists>a b'. parse_action env b response legal = (Inr a, b') \<and> a \<in> set legal"
proof (cases "first_standalone_int env response")
  case None
  then show ?thesis
    using assms(2) by (simp add: parse_action_spec[OF assms(1)] choose_random_nonempty)
next
  case (Some tok)
  have lim: "int_max_str_digits env = 0 \<or> length tok \<le> int_max_str_digits env"
    using assms(3) Some by blast
  have "py_int env tok = Inr (foldl (\<lambda>acc c. 10 * acc + digit_value env c) 0 tok)"
    using py_int_within_limit[OF standalone_int_digits[OF Some] lim] .
  then show ?thesis
    using Some assms(2) by (simp add: parse_action_spec[OF assms(1)] choose_random_nonempty)
qed

lemma sample_env_consistent: "tables_consistent sample_env"
  by (auto simp: tables_consistent_def sample_env_def re_digit_def re_word_def)

lemma overlong_number_token:
  "first_standalone_int sample_env overlong_number = Some overlong_number"
proof -
  have w: "re_word sample_env (of_char (CHR ''1''))"
    by (simp add: re_word_def sample_env_def)
  have d: "re_digit sample_env (of_char (CHR ''1''))"
    by (simp add: re_digit_def sample_env_def)
  have "word_runs_acc sample_env [] overlong_number = [overlong_number]"
    using word_runs_acc_split[of sample_env "[]" overlong_number] w
    by (simp add: overlong_number_def)
  then show ?thesis
    using d by (simp add: first_standalone_int_def overlong_number_def list_all_iff)
qed

lemma overlong_number_int: "py_int sample_env overlong_number = Inl ValueError"
  by (simp add: py_int_def overlong_number_def sample_env_def)

lemma parse_overlong_number:
  "parse_action sample_env b overlong_number legal = (Inl ValueError, b)"
  by (simp add: parse_action_spec[OF sample_env_consistent] overlong_number_token
        overlong_number_int)

text \<open>
  The parser on six short responses, the legal actions being 1, 2, 3: \<open>I pick 2.\<close>; the
  text \<open>e7 3\<close> with U+00E9 for its first letter, where the 7 belongs to a word and the
  3 stands alone; two ideographs, a space and a 2; the fullwidth digit three U+FF13; and
  two responses without a standalone integer, \<open>a1 b2\<close> and an ideograph followed by
  a 2 without a space.
\<close>

lemma parse_action_examples:
  "parse_action sample_env b (ascii ''I pick 2.'') [1, 2, 3] = (Inr 2, b)"
  "parse_action sample_env b [233, 55, 32, 51] [1, 2, 3] = (Inr 3, b)"
  "parse_action sample_env b [25105, 36873, 32, 50] [1, 2, 3] = (Inr 2, b)"
  "parse_action sample_env b [65299] [1, 2, 3] = (Inr 3, b)"
  "parse_action sample_env b (ascii ''a1 b2'') [1, 2, 3]
     = (Inr ([1, 2, 3] ! (rng b 0 mod 3)), b\<lparr>rng := (\<lambda>i. rng b (Suc i))\<rparr>)"
  "parse_action sample_env b [25105, 50] [1, 2, 3]
     = (Inr ([1, 2, 3] ! (rng b 0 mod 3)), b\<lparr>rng := (\<lambda>i. rng b (Suc i))\<rparr>)"
proof -
  have t1: "first_standalone_int sample_env (ascii ''I pick 2.'') = Some [50]"
    and t2: "first_standalone_int sample_env [233, 55, 32, 51] = Some [51]"
    and t3: "first_standalone_int sample_env [25105, 36873, 32, 50] = Some [50]"
    and t4: "first_standalone_int sample_env [65299] = Some [65299]"
    and t5: "first_standalone_int sample_env (ascii ''a1 b2'') = None"
    and t6: "first_standalone_int sample_env [25105, 50] = None"
    by (simp_all add: first_standalone_int_def sample_env_def re_word_def re_digit_def ascii_def)
  have v1: "py_int sample_env [50] = Inr 2"
    and v2: "py_int sample_env [51] = Inr 3"
    and v4: "py_int sample_env [65299] = Inr 3"
    by (simp_all add: py_int_def sample_env_def re_digit_def digit_value_def)
  show "parse_action sample_env b (ascii ''I pick 2.'') [1, 2, 3] = (Inr 2, b)"
    by (simp add: parse_action_spec[OF sample_env_consistent] t1 v1)
  show "parse_action sample_env b [233, 55, 32, 51] [1, 2, 3] = (Inr 3, b)"
    by (simp add: parse_action_spec[OF sample_env_consistent] t2 v2)
  show "parse_action sample_env b [25105, 36873, 32, 50] [1, 2, 3] = (Inr 2, b)"
    by (simp add: parse_action_spec[OF sample_env_consistent] t3 v1)
  show "parse_action sample_env b [65299] [1, 2, 3] = (Inr 3, b)"
    by (simp add: parse_action_spec[OF sample_env_consistent] t4 v4)
  show "parse_action sample_env b (ascii ''a1 b2'') [1, 2, 3]
     = (Inr ([1, 2, 3] ! (rng b 0 mod 3)), b\<lparr>rng := (\<lambda>i. rng b (Suc i))\<rparr>)"
    using choose_random_nonempty[of "[1, 2, 3]" b]
    by (simp add: parse_action_spec[OF sample_env_consistent] t5)
  show "parse_action sample_env b [25105, 50] [1, 2, 3]
     = (Inr ([1, 2, 3] ! (rng b 0 mod 3)), b\<lparr>rng := (\<lambda>i. rng b (Suc i))\<rparr>)"
    using choose_random_nonempty[of "[1, 2, 3]" b]
    by (simp add: parse_action_spec[OF sample_env_consistent] t6)
qed

text \<open>
  C4. The code at the input where the claim fails: the legal actions are 1, 2, 3 and the
  response is one number of 4301 digits, under an interpreter whose \<open>int\<close> accepts 4300.
  The number is the first standalone integer token of the response; the parser neither
  returns its value nor draws a legal action: the \<open>ValueError\<close> of \<open>int\<close> leaves it.
\<close>

theorem overlong_token_raises_in_parser:
  "first_standalone_int sample_env overlong_number = Some overlong_number
   \<and> length overlong_number = 4301
   \<and> int_max_str_digits sample_env = 4300
   \<and> parse_action sample_env (fresh_bot always_timeout) overlong_number [1, 2, 3]
       = (Inl ValueError, fresh_bot always_timeout)"
proof -
  have l: "length overlong_number = 4301" by (simp add: overlong_number_def)
  have m: "int_max_str_digits sample_env = 4300" by (simp add: sample_env_def)
  show ?thesis
    using overlong_number_token l m
      parse_overlong_number[of "fresh_bot always_timeout" "[1, 2, 3]"]
    by simp
qed

section \<open>The attempt loop and the turn\<close>

lemma upt_retries: "[0..<max_retries] = [0, 1, 2]"
  by (simp add: max_retries_def upt_rec)

lemma attempts_success:
  assumes "first_success (llm_chat_fn b) p max_retries w = Some (r, u, w')"
  shows "attempts p st [0..<max_retries] b w =
           (Break r,
            b\<lparr>conversation := conversation b @ exchange p r,
              total_usage := add_usage (total_usage b) u\<rparr>,
            w')"
  using assms
  by (auto simp: upt_retries max_retries_def numeral_3_eq_3
           split: prod.splits llm_outcome.splits)

lemma attempts_failure:
  assumes "first_success (llm_chat_fn b) p max_retries w = None"
  shows "attempts p st [0..<max_retries] b w =
           (case on_failure b st p (outcome_at (llm_chat_fn b) p (max_retries - 1) w) of
              (x, b') \<Rightarrow> (x, b', world_after (llm_chat_fn b) p max_retries w))"
  using assms
  by (auto simp: upt_retries max_retries_def numeral_3_eq_3 numeral_2_eq_2 outcome_at_def
           split: prod.splits llm_outcome.splits)

lemma step_failure:
  assumes "first_success (llm_chat_fn b) (generate_prompt b st) max_retries w = None"
  shows "step env b st w =
           (case choose_random
                   (b\<lparr>last_error :=
                        Some \<lparr>err_prompt = generate_prompt b st,
                              err_error = error_msg (outcome_at (llm_chat_fn b)
                                            (generate_prompt b st) (max_retries - 1) w),
                              err_attempts = max_retries\<rparr>\<rparr>)
                   (legal_actions st (player_id b)) of
              (r, b') \<Rightarrow> (r, b', world_after (llm_chat_fn b) (generate_prompt b st) max_retries w))"
  using attempts_failure[OF assms, of st]
  by (simp add: step_def Let_def on_failure_def split: prod.splits)

lemma step_after_success:
  assumes "first_success (llm_chat_fn b) (generate_prompt b st) max_retries w = Some (r, u, w')"
  shows "step env b st w =
           (case parse_action env
                   (b\<lparr>conversation := conversation b @ exchange (generate_prompt b st) r,
                      total_usage := add_usage (total_usage b) u\<rparr>)
                   r (legal_actions st (player_id b)) of
              (Inl e, b2) \<Rightarrow> (Inl e, b2, w')
            | (Inr a, b2) \<Rightarrow>
                (Inr a, b2\<lparr>action_history := action_history b2 @ [(player_id b2, a)]\<rparr>, w'))"
  using attempts_success[OF assms, of st]
  by (simp add: step_def Let_def split: prod.splits sum.splits)

lemma always_timeout_fails: "first_success always_timeout p max_retries n = None"
  by (simp add: max_retries_def numeral_3_eq_3 always_timeout_def)



lemma answers_succeed: "first_success (answers r u) p max_retries n = Some (r, u, Suc n)"
  by (simp add: max_retries_def numeral_3_eq_3 answers_def)

lemma fresh_bot_fields:
  "llm_chat_fn (fresh_bot f) = f" "player_id (fresh_bot f) = 0" "rng (fresh_bot f) = (\<lambda>i. i)"
  "action_history (fresh_bot f) = []" "conversation (fresh_bot f) = []"
  "last_error (fresh_bot f) = None" "total_usage (fresh_bot f) = zero_usage"
  "bot_game (fresh_bot f) = liars_dice"
  by (simp_all add: fresh_bot_def init_bot_def)

text \<open>
  What does hold of every turn: with a non-empty list of legal actions, \<open>step\<close> returns
  a member of the list whenever the interpreter puts no limit on \<open>int\<close> or the first
  standalone integer token of the response, if there is one, is within the limit.
\<close>

lemma step_returns_legal_action_within_limit:
  assumes "tables_consistent env"
      and "legal_actions st (player_id b) \<noteq> []"
      and "\<And>r u w' tok.
             first_success (llm_chat_fn b) (generate_prompt b st) max_retries w = Some (r, u, w')
             \<Longrightarrow> first_standalone_int env r = Some tok
             \<Longrightarrow> int_max_str_digits env = 0 \<or> length tok \<le> int_max_str_digits env"
  shows "\<exists>a b' w'. step env b st w = (Inr a, b', w') \<and> a \<in> set (legal_actions st (player_id b))"
proof (cases "first_success (llm_chat_fn b) (generate_prompt b st) max_retries w")
  case None
  show ?thesis
    using step_failure[OF None] assms(2) by (simp add: choose_random_nonempty)
next
  case (Some x)
  obtain r u w' where x: "x = (r, u, w')" by (cases x) auto
  let ?b1 = "b\<lparr>conversation := conversation b @ exchange (generate_prompt b st) r,
               total_usage := add_usage (total_usage b) u\<rparr>"
  have "\<exists>a b2. parse_action env ?b1 r (legal_actions st (player_id b)) = (Inr a, b2)
      \<and> a \<in> set (legal_actions st (player_id b))"
  proof (rule parse_action_within_limit[OF assms(1) assms(2)])
    fix tok
    assume "first_standalone_int env r = Some tok"
    then show "int_max_str_digits env = 0 \<or> length tok \<le> int_max_str_digits env"
      using assms(3) Some x by blast
  qed
  then obtain a b2 where "parse_action env ?b1 r (legal_actions st (player_id b)) = (Inr a, b2)"
      and "a \<in> set (legal_actions st (player_id b))"
    by blast
  then show ?thesis
    using step_after_success[OF Some[unfolded x]] by simp
qed

text \<open>
  C1. The code at the input where the claim fails: the state gives the legal actions 1,
  2, 3, the first attempt succeeds, and the response is one number of 4301 digits, one
  more than \<open>int\<close> accepts. \<open>step\<close> returns no action: the \<open>ValueError\<close> of \<open>int\<close> leaves
  it.
\<close>

theorem overlong_answer_raises:
  "legal_actions opening_state (player_id (fresh_bot (answers overlong_number []))) = [1, 2, 3]
   \<and> first_success (llm_chat_fn (fresh_bot (answers overlong_number [])))
        (generate_prompt (fresh_bot (answers overlong_number [])) opening_state) max_retries 0
       = Some (overlong_number, [], 1)
   \<and> fst (step sample_env (fresh_bot (answers overlong_number [])) opening_state 0)
       = Inl ValueError"
proof -
  let ?b = "fresh_bot (answers overlong_number [])"
  have f: "first_success (llm_chat_fn ?b) (generate_prompt ?b opening_state) max_retries 0
      = Some (overlong_number, [], 1)"
    by (simp add: fresh_bot_fields answers_succeed)
  have l: "legal_actions opening_state (player_id ?b) = [1, 2, 3]"
    by (simp add: opening_state_def)
  have "fst (step sample_env ?b opening_state 0) = Inl ValueError"
    using step_after_success[OF f, of sample_env] by (simp add: parse_overlong_number)
  then show ?thesis using f l by simp
qed



subsection \<open>What a turn leaves unchanged\<close>

lemma choose_random_fields:
  "conversation (snd (choose_random b legal)) = conversation b"
  "total_usage (snd (choose_random b legal)) = total_usage b"
  "last_error (snd (choose_random b legal)) = last_error b"
  "action_history (snd (choose_random b legal)) = action_history b"
  "player_id (snd (choose_random b legal)) = player_id b"
  "llm_chat_fn (snd (choose_random b legal)) = llm_chat_fn b"
  "bot_game (snd (choose_random b legal)) = bot_game b"
  by (simp_all add: choose_random_def rng_choice_def)

lemma parse_action_fields:
  "conversation (snd (parse_action env b r legal)) = conversation b"
  "total_usage (snd (parse_action env b r legal)) = total_usage b"
  "last_error (snd (parse_action env b r legal)) = last_error b"
  "action_history (snd (parse_action env b r legal)) = action_history b"
  "player_id (snd (parse_action env b r legal)) = player_id b"
  "llm_chat_fn (snd (parse_action env b r legal)) = llm_chat_fn b"
  "bot_game (snd (parse_action env b r legal)) = bot_game b"
  by (simp_all add: parse_action_def choose_random_fields split: option.splits sum.splits)

lemma step_success_fields:
  assumes "first_success (llm_chat_fn b) (generate_prompt b st) max_retries w = Some (r, u, w')"
  shows "total_usage (fst (snd (step env b st w))) = add_usage (total_usage b) u"
    and "conversation (fst (snd (step env b st w)))
           = conversation b @ exchange (generate_prompt b st) r"
    and "last_error (fst (snd (step env b st w))) = last_error b"
    and "llm_chat_fn (fst (snd (step env b st w))) = llm_chat_fn b"
    and "snd (snd (step env b st w)) = w'"
    and "bot_game (fst (snd (step env b st w))) = bot_game b"
    and "player_id (fst (snd (step env b st w))) = player_id b"
proof -
  let ?b1 = "b\<lparr>conversation := conversation b @ exchange (generate_prompt b st) r,
               total_usage := add_usage (total_usage b) u\<rparr>"
  let ?legal = "legal_actions st (player_id b)"
  obtain x b2 where p: "parse_action env ?b1 r ?legal = (x, b2)"
    by (cases "parse_action env ?b1 r ?legal") auto
  have f: "total_usage b2 = total_usage ?b1" "conversation b2 = conversation ?b1"
      "last_error b2 = last_error ?b1" "llm_chat_fn b2 = llm_chat_fn ?b1"
      "bot_game b2 = bot_game ?b1" "player_id b2 = player_id ?b1"
    using parse_action_fields[of env ?b1 r ?legal] p by simp_all
  have s: "step env b st w =
      (case x of Inl e \<Rightarrow> (Inl e, b2, w')
       | Inr a \<Rightarrow> (Inr a, b2\<lparr>action_history := action_history b2 @ [(player_id b2, a)]\<rparr>, w'))"
    using step_after_success[OF assms, of env] p by (simp split: sum.splits)
  show "total_usage (fst (snd (step env b st w))) = add_usage (total_usage b) u"
    using s f by (cases x) simp_all
  show "conversation (fst (snd (step env b st w)))
           = conversation b @ exchange (generate_prompt b st) r"
    using s f by (cases x) simp_all
  show "last_error (fst (snd (step env b st w))) = last_error b"
    using s f by (cases x) simp_all
  show "llm_chat_fn (fst (snd (step env b st w))) = llm_chat_fn b"
    using s f by (cases x) simp_all
  show "snd (snd (step env b st w)) = w'"
    using s by (cases x) simp_all
  show "bot_game (fst (snd (step env b st w))) = bot_game b"
    using s f by (cases x) simp_all
  show "player_id (fst (snd (step env b st w))) = player_id b"
    using s f by (cases x) simp_all
qed

lemma step_failure_fields:
  assumes "first_success (llm_chat_fn b) (generate_prompt b st) max_retries w = None"
  shows "total_usage (fst (snd (step env b st w))) = total_usage b"
    and "conversation (fst (snd (step env b st w))) = conversation b"
    and "action_history (fst (snd (step env b st w))) = action_history b"
    and "llm_chat_fn (fst (snd (step env b st w))) = llm_chat_fn b"
    and "last_error (fst (snd (step env b st w))) =
           Some \<lparr>err_prompt = generate_prompt b st,
                 err_error = error_msg (outcome_at (llm_chat_fn b)
                               (generate_prompt b st) (max_retries - 1) w),
                 err_attempts = max_retries\<rparr>"
    and "bot_game (fst (snd (step env b st w))) = bot_game b"
    and "player_id (fst (snd (step env b st w))) = player_id b"
  using step_failure[OF assms, of env]
  by (simp_all add: choose_random_def rng_choice_def split: prod.splits)

text \<open>
  C9. When every attempt of a turn fails, the turn leaves the conversation, the usage
  totals and the action history as they were; of the episode state it changes only the
  last error, which it sets.
\<close>

theorem failed_turn_frame:
  assumes "first_success (llm_chat_fn b) (generate_prompt b st) max_retries w = None"
  shows "conversation (fst (snd (step env b st w))) = conversation b
         \<and> total_usage (fst (snd (step env b st w))) = total_usage b
         \<and> action_history (fst (snd (step env b st w))) = action_history b
         \<and> last_error (fst (snd (step env b st w))) =
             Some \<lparr>err_prompt = generate_prompt b st,
                   err_error = error_msg (outcome_at (llm_chat_fn b)
                                 (generate_prompt b st) (max_retries - 1) w),
                   err_attempts = max_retries\<rparr>"
  using step_failure_fields(1,2,3,5)[OF assms, of env] by simp

theorem failed_turn_frame_witness:
  "first_success (llm_chat_fn (fresh_bot always_timeout))
       (generate_prompt (fresh_bot always_timeout) opening_state) max_retries 0 = None
   \<and> conversation (fst (snd (step sample_env (fresh_bot always_timeout) opening_state 0))) = []
   \<and> total_usage (fst (snd (step sample_env (fresh_bot always_timeout) opening_state 0)))
       = zero_usage
   \<and> action_history (fst (snd (step sample_env (fresh_bot always_timeout) opening_state 0))) = []
   \<and> last_error (fst (snd (step sample_env (fresh_bot always_timeout) opening_state 0)))
       \<noteq> None"
proof -
  have f: "first_success (llm_chat_fn (fresh_bot always_timeout))
       (generate_prompt (fresh_bot always_timeout) opening_state) max_retries 0 = None"
    by (simp add: fresh_bot_fields always_timeout_fails)
  show ?thesis
    using failed_turn_frame[OF f, of sample_env] f by (simp add: fresh_bot_fields)
qed

text \<open>
  C2. The code at the input where the claim fails: the LLM function times out at every
  attempt. \<open>step\<close> returns the action 1 and the action history is still empty.
\<close>

theorem fallback_action_not_recorded:
  "fst (step sample_env (fresh_bot always_timeout) opening_state 0) = Inr 1
   \<and> action_history (fst (snd (step sample_env (fresh_bot always_timeout) opening_state 0))) = []"
proof -
  have f: "first_success (llm_chat_fn (fresh_bot always_timeout))
       (generate_prompt (fresh_bot always_timeout) opening_state) max_retries 0 = None"
    by (simp add: fresh_bot_fields always_timeout_fails)
  have "fst (step sample_env (fresh_bot always_timeout) opening_state 0) = Inr 1"
    using step_failure[OF f, of sample_env]
    by (simp add: choose_random_def rng_choice_def fresh_bot_fields opening_state_def)
  then show ?thesis
    using step_failure_fields(3)[OF f, of sample_env] by (simp add: fresh_bot_fields)
qed

text \<open>
  What does hold after a response without a legal action: when the response holds no
  standalone integer, or \<open>int\<close> reads its first one and the value is not a legal action,
  the turn returns the element of the non-empty legal list that the bot's generator
  draws, and the last error after the turn is the last error before it.
\<close>

lemma parse_fallback_keeps_last_error:
  assumes "tables_consistent env"
      and "first_success (llm_chat_fn b) (generate_prompt b st) max_retries w = Some (r, u, w')"
      and "legal_actions st (player_id b) \<noteq> []"
      and "case first_standalone_int env r of
             None \<Rightarrow> True
           | Some tok \<Rightarrow>
               (case py_int env tok of
                  Inl e \<Rightarrow> False
                | Inr v \<Rightarrow> v \<notin> set (legal_actions st (player_id b)))"
  shows "fst (step env b st w) =
           Inr (legal_actions st (player_id b)
                  ! (rng b 0 mod length (legal_actions st (player_id b))))
         \<and> last_error (fst (snd (step env b st w))) = last_error b"
proof -
  let ?b1 = "b\<lparr>conversation := conversation b @ exchange (generate_prompt b st) r,
               total_usage := add_usage (total_usage b) u\<rparr>"
  let ?legal = "legal_actions st (player_id b)"
  have "parse_action env ?b1 r ?legal = choose_random ?b1 ?legal"
    using assms(4) by (simp add: parse_action_spec[OF assms(1)] split: option.splits sum.splits)
  then have "parse_action env ?b1 r ?legal =
      (Inr (?legal ! (rng b 0 mod length ?legal)), ?b1\<lparr>rng := (\<lambda>i. rng ?b1 (Suc i))\<rparr>)"
    using choose_random_nonempty[OF assms(3), of ?b1] by simp
  then have "fst (step env b st w) = Inr (?legal ! (rng b 0 mod length ?legal))"
    using step_after_success[OF assms(2), of env] by simp
  then show ?thesis using step_success_fields(3)[OF assms(2), of env] by simp
qed

text \<open>
  C8. The code at the input where the claim fails: the first attempt succeeds, the
  response is one number of 4301 digits, which is no legal action, and the legal actions
  are 1, 2, 3. The turn does not resolve by the random fallback: \<open>step\<close> returns no
  action, the \<open>ValueError\<close> of \<open>int\<close> leaves it, and the generator has drawn nothing. The
  last error is as before the turn.
\<close>

theorem overlong_answer_skips_fallback:
  "fst (step sample_env (fresh_bot (answers overlong_number usage_partial)) opening_state 0)
     = Inl ValueError
   \<and> rng (fst (snd (step sample_env (fresh_bot (answers overlong_number usage_partial))
                      opening_state 0)))
       = rng (fresh_bot (answers overlong_number usage_partial))
   \<and> last_error (fst (snd (step sample_env (fresh_bot (answers overlong_number usage_partial))
                             opening_state 0)))
       = last_error (fresh_bot (answers overlong_number usage_partial))"
proof -
  let ?b = "fresh_bot (answers overlong_number usage_partial)"
  have f: "first_success (llm_chat_fn ?b) (generate_prompt ?b opening_state) max_retries 0
      = Some (overlong_number, usage_partial, 1)"
    by (simp add: fresh_bot_fields answers_succeed)
  have "fst (step sample_env ?b opening_state 0) = Inl ValueError"
       "rng (fst (snd (step sample_env ?b opening_state 0))) = rng ?b"
    using step_after_success[OF f, of sample_env] by (simp_all add: parse_overlong_number)
  then show ?thesis using step_success_fields(3)[OF f, of sample_env] by simp
qed

text \<open>
  C10. When the state gives the bot's player no legal action, \<open>step\<close> returns no action:
  the random choice raises \<open>ValueError\<close>, in the fallback that ends the retries and in the
  parser, with or without an integer in the response.
\<close>

theorem empty_legal_set_raises:
  assumes "legal_actions st (player_id b) = []"
  shows "fst (step env b st w) = Inl ValueError
         \<and> fst (parse_action env b response (legal_actions st (player_id b))) = Inl ValueError
         \<and> fst (choose_random b (legal_actions st (player_id b))) = Inl ValueError"
proof -
  have p: "parse_action env c r [] = (Inl ValueError, c)" for c :: "'a bot" and r
    by (auto simp: parse_action_def choose_random_empty dest: py_int_error
             split: option.splits sum.splits)
  have "fst (step env b st w) = Inl ValueError"
  proof (cases "first_success (llm_chat_fn b) (generate_prompt b st) max_retries w")
    case None
    show ?thesis using step_failure[OF None, of env] assms by (simp add: choose_random_empty)
  next
    case (Some x)
    obtain r u w' where x: "x = (r, u, w')" by (cases x) auto
    show ?thesis using step_after_success[OF Some[unfolded x], of env] assms by (simp add: p)
  qed
  then show ?thesis using assms by (simp add: p choose_random_empty)
qed

theorem empty_legal_set_raises_witness:
  "legal_actions stuck_state (player_id (fresh_bot always_timeout)) = []
   \<and> fst (step sample_env (fresh_bot always_timeout) stuck_state 0) = Inl ValueError
   \<and> fst (step sample_env (fresh_bot (answers (ascii ''2'') [])) stuck_state 0) = Inl ValueError
   \<and> fst (parse_action sample_env (fresh_bot always_timeout) (ascii ''2'') []) = Inl ValueError"
proof -
  have e1: "legal_actions stuck_state (player_id (fresh_bot always_timeout)) = []"
    by (simp add: stuck_state_def)
  have e2: "legal_actions stuck_state (player_id (fresh_bot (answers (ascii ''2'') []))) = []"
    by (simp add: stuck_state_def)
  show ?thesis
    using empty_legal_set_raises[OF e1, of sample_env 0 "ascii ''2''"]
          empty_legal_set_raises[OF e2, of sample_env 0 "ascii ''2''"] e1
    by simp
qed

subsection \<open>Usage totals\<close>

lemma restart_at_fields:
  "llm_chat_fn (restart_at b st) = llm_chat_fn b"
  "total_usage (restart_at b st) = \<lparr>prompt_tokens = 0, completion_tokens = 0, total_tokens = 0\<rparr>"
  by (simp_all add: restart_at_def zero_usage_def)

lemma add_usage_a:
  "add_usage t usage_a =
     \<lparr>prompt_tokens = prompt_tokens t + 10, completion_tokens = completion_tokens t + 5,
      total_tokens = total_tokens t + 15\<rparr>"
  by (simp add: add_usage_def usage_a_def usage_get_def)

lemma add_usage_b:
  "add_usage t usage_b =
     \<lparr>prompt_tokens = prompt_tokens t + 7, completion_tokens = completion_tokens t + 3,
      total_tokens = total_tokens t + 10\<rparr>"
  by (simp add: add_usage_def usage_b_def usage_get_def)

lemma add_usage_partial:
  "add_usage t usage_partial =
     \<lparr>prompt_tokens = prompt_tokens t + 7, completion_tokens = completion_tokens t,
      total_tokens = total_tokens t\<rparr>"
  by (simp add: add_usage_def usage_partial_def usage_get_def)

text \<open>
  C6. After an episode reset the totals are (0, 0, 0); a turn whose attempt succeeds with
  the usage (10, 5, 15) makes them (10, 5, 15), a second one with (7, 3, 10) makes them
  (17, 8, 25), and the next reset makes them (0, 0, 0) again. A counter that the usage
  record does not name counts as zero: a turn whose attempt succeeds with a usage record
  that holds nothing but 7 prompt tokens adds 7 to the prompt total and leaves the other
  two totals as they were.
\<close>

theorem usage_accumulates_and_resets:
  assumes "first_success (llm_chat_fn (restart_at b st0))
             (generate_prompt (restart_at b st0) st1) max_retries w0 = Some (r1, usage_a, w1)"
      and "b1 = fst (snd (step env (restart_at b st0) st1 w0))"
      and "first_success (llm_chat_fn b1) (generate_prompt b1 st2) max_retries w1
             = Some (r2, usage_b, w2)"
      and "b2 = fst (snd (step env b1 st2 w1))"
      and "first_success (llm_chat_fn c) (generate_prompt c st4) max_retries w4
             = Some (r4, usage_partial, w5)"
  shows "snd (snd (step env (restart_at b st0) st1 w0)) = w1
         \<and> total_usage b1 = \<lparr>prompt_tokens = 10, completion_tokens = 5, total_tokens = 15\<rparr>
         \<and> total_usage b2 = \<lparr>prompt_tokens = 17, completion_tokens = 8, total_tokens = 25\<rparr>
         \<and> total_usage (restart_at b2 st3)
             = \<lparr>prompt_tokens = 0, completion_tokens = 0, total_tokens = 0\<rparr>
         \<and> (map_of u k = None \<longrightarrow> usage_get u k = 0)
         \<and> total_usage (fst (snd (step env c st4 w4)))
             = \<lparr>prompt_tokens = prompt_tokens (total_usage c) + 7,
                completion_tokens = completion_tokens (total_usage c),
                total_tokens = total_tokens (total_usage c)\<rparr>"
proof -
  have w: "snd (snd (step env (restart_at b st0) st1 w0)) = w1"
    using step_success_fields(5)[OF assms(1), of env] .
  have t1: "total_usage b1 = \<lparr>prompt_tokens = 10, completion_tokens = 5, total_tokens = 15\<rparr>"
    using step_success_fields(1)[OF assms(1), of env] assms(2)
    by (simp add: add_usage_a restart_at_fields)
  have t2: "total_usage b2 = \<lparr>prompt_tokens = 17, completion_tokens = 8, total_tokens = 25\<rparr>"
    using step_success_fields(1)[OF assms(3), of env] assms(4) t1
    by (simp add: add_usage_b)
  have t4: "total_usage (fst (snd (step env c st4 w4)))
      = \<lparr>prompt_tokens = prompt_tokens (total_usage c) + 7,
         completion_tokens = completion_tokens (total_usage c),
         total_tokens = total_tokens (total_usage c)\<rparr>"
    using step_success_fields(1)[OF assms(5), of env] by (simp add: add_usage_partial)
  show ?thesis using w t1 t2 t4 by (simp add: restart_at_fields usage_get_def)
qed

lemma two_answers_succeed:
  "first_success two_answers p max_retries n
     = Some (ascii ''2'', if n = 0 then usage_a else usage_b, Suc n)"
  by (simp add: max_retries_def numeral_3_eq_3 two_answers_def)

theorem usage_accumulates_and_resets_witness:
  "(let b0 = restart_at (fresh_bot two_answers) opening_state;
        b1 = fst (snd (step sample_env b0 opening_state 0));
        b2 = fst (snd (step sample_env b1 later_state 1))
    in first_success (llm_chat_fn b0) (generate_prompt b0 opening_state) max_retries 0
         = Some (ascii ''2'', usage_a, 1)
       \<and> first_success (llm_chat_fn b1) (generate_prompt b1 later_state) max_retries 1
           = Some (ascii ''2'', usage_b, 2)
       \<and> total_usage b2 = \<lparr>prompt_tokens = 17, completion_tokens = 8, total_tokens = 25\<rparr>
       \<and> total_usage (restart_at b2 opening_state)
           = \<lparr>prompt_tokens = 0, completion_tokens = 0, total_tokens = 0\<rparr>)
   \<and> map_of [(''prompt_tokens'', 7 :: int)] ''total_tokens'' = None
   \<and> usage_get [(''prompt_tokens'', 7)] ''total_tokens'' = 0
   \<and> first_success (llm_chat_fn (fresh_bot (answers (ascii ''2'') usage_partial)))
        (generate_prompt (fresh_bot (answers (ascii ''2'') usage_partial)) opening_state)
        max_retries 0
       = Some (ascii ''2'', usage_partial, 1)
   \<and> total_usage (fst (snd (step sample_env (fresh_bot (answers (ascii ''2'') usage_partial))
                              opening_state 0)))
       = \<lparr>prompt_tokens = 7, completion_tokens = 0, total_tokens = 0\<rparr>"
proof -
  define b0 where "b0 = restart_at (fresh_bot two_answers) opening_state"
  define b1 where "b1 = fst (snd (step sample_env b0 opening_state 0))"
  define b2 where "b2 = fst (snd (step sample_env b1 later_state 1))"
  define c where "c = fresh_bot (answers (ascii ''2'') usage_partial)"
  have l0: "llm_chat_fn b0 = two_answers"
    by (simp add: b0_def restart_at_fields fresh_bot_fields)
  have f0: "first_success (llm_chat_fn (restart_at (fresh_bot two_answers) opening_state))
      (generate_prompt (restart_at (fresh_bot two_answers) opening_state) opening_state)
      max_retries 0 = Some (ascii ''2'', usage_a, 1)"
    using l0 by (simp add: b0_def two_answers_succeed)
  have l1: "llm_chat_fn b1 = two_answers"
    using step_success_fields(4)[OF f0, of sample_env] l0 by (simp add: b1_def b0_def)
  have f1: "first_success (llm_chat_fn b1) (generate_prompt b1 later_state) max_retries 1
      = Some (ascii ''2'', usage_b, 2)"
    using l1 by (simp add: two_answers_succeed)
  have f4: "first_success (llm_chat_fn c) (generate_prompt c opening_state) max_retries 0
      = Some (ascii ''2'', usage_partial, 1)"
    by (simp add: c_def fresh_bot_fields answers_succeed)
  have m: "map_of [(''prompt_tokens'', 7 :: int)] ''total_tokens'' = None" by simp
  have z: "total_usage c = \<lparr>prompt_tokens = 0, completion_tokens = 0, total_tokens = 0\<rparr>"
    by (simp add: c_def fresh_bot_fields zero_usage_def)
  have res: "total_usage b2 = \<lparr>prompt_tokens = 17, completion_tokens = 8, total_tokens = 25\<rparr>
      \<and> total_usage (restart_at b2 opening_state)
          = \<lparr>prompt_tokens = 0, completion_tokens = 0, total_tokens = 0\<rparr>
      \<and> usage_get [(''prompt_tokens'', 7)] ''total_tokens'' = 0
      \<and> total_usage (fst (snd (step sample_env c opening_state 0)))
          = \<lparr>prompt_tokens = 7, completion_tokens = 0, total_tokens = 0\<rparr>"
    using usage_accumulates_and_resets[OF f0 b1_def[unfolded b0_def] f1 b2_def f4,
            of opening_state "[(''prompt_tokens'', 7)]" "''total_tokens''"] m z
    by simp
  show ?thesis
    unfolding Let_def b0_def[symmetric] b1_def[symmetric] b2_def[symmetric] c_def[symmetric]
    using res f0[folded b0_def] f1 f4 m by simp
qed

lemma usage_get_nonneg: "list_all (\<lambda>(k, v). 0 \<le> v) u \<Longrightarrow> 0 \<le> usage_get u k"
proof (cases "map_of u k")
  case None
  then show ?thesis by (simp add: usage_get_def)
next
  case (Some v)
  assume "list_all (\<lambda>(k, v). 0 \<le> v) u"
  moreover have "(k, v) \<in> set u" using Some by (rule map_of_SomeD)
  ultimately have "0 \<le> v" by (auto simp: list_all_iff)
  then show ?thesis using Some by (simp add: usage_get_def)
qed

lemma add_usage_mono:
  assumes "list_all (\<lambda>(k, v). 0 \<le> v) u"
  shows "prompt_tokens t \<le> prompt_tokens (add_usage t u)
         \<and> completion_tokens t \<le> completion_tokens (add_usage t u)
         \<and> total_tokens t \<le> total_tokens (add_usage t u)"
  using usage_get_nonneg[OF assms] by (simp add: add_usage_def)

text \<open>
  C7, as the code has it. A turn whose successful attempt reports a negative count
  lowers the total: here the prompt-token total goes from 0 to -1.
\<close>

theorem negative_usage_lowers_total:
  "prompt_tokens (total_usage
      (fst (snd (step sample_env (fresh_bot (answers (ascii ''1'') [(''prompt_tokens'', - 1)]))
                   opening_state 0))))
   < prompt_tokens (total_usage (fresh_bot (answers (ascii ''1'') [(''prompt_tokens'', - 1)])))"
proof -
  let ?b = "fresh_bot (answers (ascii ''1'') [(''prompt_tokens'', - 1)])"
  have f: "first_success (llm_chat_fn ?b) (generate_prompt ?b opening_state) max_retries 0
      = Some (ascii ''1'', [(''prompt_tokens'', - 1)], 1)"
    by (simp add: fresh_bot_fields answers_succeed)
  show ?thesis
    using step_success_fields(1)[OF f, of sample_env]
    by (simp add: fresh_bot_fields add_usage_def usage_get_def zero_usage_def)
qed

text \<open>
  C7, amended. When the counts that the successful attempt of a turn reports are not
  negative, none of the three totals is smaller after \<open>step\<close> than before;
  \<open>inform_action\<close> leaves the totals as they are, and \<open>restart_at\<close> sets all three to
  zero.
\<close>

theorem usage_never_decreases:
  assumes "\<forall>r u w'. first_success (llm_chat_fn b) (generate_prompt b st) max_retries w
                       = Some (r, u, w') \<longrightarrow> list_all (\<lambda>(k, v). 0 \<le> v) u"
  shows "prompt_tokens (total_usage b) \<le> prompt_tokens (total_usage (fst (snd (step env b st w))))
         \<and> completion_tokens (total_usage b)
             \<le> completion_tokens (total_usage (fst (snd (step env b st w))))
         \<and> total_tokens (total_usage b) \<le> total_tokens (total_usage (fst (snd (step env b st w))))
         \<and> total_usage (inform_action b st p a) = total_usage b
         \<and> total_usage (restart_at b st)
             = \<lparr>prompt_tokens = 0, completion_tokens = 0, total_tokens = 0\<rparr>"
proof (cases "first_success (llm_chat_fn b) (generate_prompt b st) max_retries w")
  case None
  show ?thesis
    using step_failure_fields(1)[OF None, of env]
    by (simp add: inform_action_def restart_at_fields)
next
  case (Some x)
  obtain r u w' where x: "x = (r, u, w')" by (cases x) auto
  have "list_all (\<lambda>(k, v). 0 \<le> v) u" using assms Some x by blast
  then show ?thesis
    using step_success_fields(1)[OF Some[unfolded x], of env] add_usage_mono[of u "total_usage b"]
    by (simp add: inform_action_def restart_at_fields)
qed

theorem usage_never_decreases_witness:
  "first_success (llm_chat_fn (fresh_bot two_answers))
       (generate_prompt (fresh_bot two_answers) opening_state) max_retries 0
     = Some (ascii ''2'', usage_a, 1)
   \<and> list_all (\<lambda>(k, v). 0 \<le> v) usage_a
   \<and> prompt_tokens (total_usage (fresh_bot two_answers))
       \<le> prompt_tokens (total_usage (fst (snd (step sample_env (fresh_bot two_answers) opening_state 0))))
   \<and> total_usage (inform_action (fresh_bot two_answers) opening_state 1 2)
       = total_usage (fresh_bot two_answers)"
proof -
  have f: "first_success (llm_chat_fn (fresh_bot two_answers))
       (generate_prompt (fresh_bot two_answers) opening_state) max_retries 0
     = Some (ascii ''2'', usage_a, 1)"
    by (simp add: fresh_bot_fields two_answers_succeed)
  have n: "list_all (\<lambda>(k, v). 0 \<le> v) usage_a"
    by (simp add: usage_a_def)
  have h: "\<forall>r u w'. first_success (llm_chat_fn (fresh_bot two_answers))
                 (generate_prompt (fresh_bot two_answers) opening_state) max_retries 0
               = Some (r, u, w') \<longrightarrow> list_all (\<lambda>(k, v). 0 \<le> v) u"
    using f n by simp
  show ?thesis
    using usage_never_decreases[OF h, of sample_env 1 2] f n by simp
qed

section \<open>The Liar's Dice prompts\<close>


























end
